theory Spec2Isabelle
  imports Complex_Main "HOL-Library.AList" "HOL-Library.Sublist"
begin

section \<open>Python data used by \<^verbatim>\<open>diffrax/_autocitation.py\<close>\<close>

text \<open>
  Python \<^verbatim>\<open>str\<close> values are modelled as \<^typ>\<open>string\<close> holding the UTF-8 encoding of the
  text. A \<^verbatim>\<open>dict\<close> with string keys is an association list in insertion order with
  distinct keys: \<^term>\<open>map_of d k\<close> is \<^verbatim>\<open>d.get(k)\<close>, \<^term>\<open>AList.update k v d\<close> is
  \<^verbatim>\<open>d[k] = v\<close> and \<^term>\<open>AList.delete k d\<close> removes the key.
\<close>

type_synonym 'v dict = "(string \<times> 'v) list"

text \<open>
  Exceptions are values. The payload is the message of the exception.
\<close>

datatype error =
    TypeError string
  | ValueError string
  | AssertionError
  | RuntimeError string
  | AttributeError string
  | OtherError string

text \<open>
  \<^verbatim>\<open>repr\<close> of a string without quote, backslash or non-printable character
  (every parameter name is such a string).
\<close>

definition repr :: "string \<Rightarrow> string" where
  "repr s = [CHR 0x27] @ s @ [CHR 0x27]"

subsection \<open>\<^verbatim>\<open>str.strip\<close> and \<^verbatim>\<open>str.join\<close>\<close>

text \<open>
  The code points for which \<^verbatim>\<open>str.isspace\<close> holds, in UTF-8:
  U+0009..U+000D, U+001C..U+0020, U+0085, U+00A0, U+1680, U+2000..U+200A, U+2028,
  U+2029, U+202F, U+205F, U+3000.
\<close>

definition whitespace :: "string list" where
  "whitespace =
    [[CHR 0x09], [CHR 0x0A], [CHR 0x0B], [CHR 0x0C], [CHR 0x0D],
     [CHR 0x1C], [CHR 0x1D], [CHR 0x1E], [CHR 0x1F], [CHR 0x20],
     [CHR 0xC2, CHR 0x85], [CHR 0xC2, CHR 0xA0], [CHR 0xE1, CHR 0x9A, CHR 0x80],
     [CHR 0xE2, CHR 0x80, CHR 0x80], [CHR 0xE2, CHR 0x80, CHR 0x81],
     [CHR 0xE2, CHR 0x80, CHR 0x82], [CHR 0xE2, CHR 0x80, CHR 0x83],
     [CHR 0xE2, CHR 0x80, CHR 0x84], [CHR 0xE2, CHR 0x80, CHR 0x85],
     [CHR 0xE2, CHR 0x80, CHR 0x86], [CHR 0xE2, CHR 0x80, CHR 0x87],
     [CHR 0xE2, CHR 0x80, CHR 0x88], [CHR 0xE2, CHR 0x80, CHR 0x89],
     [CHR 0xE2, CHR 0x80, CHR 0x8A], [CHR 0xE2, CHR 0x80, CHR 0xA8],
     [CHR 0xE2, CHR 0x80, CHR 0xA9], [CHR 0xE2, CHR 0x80, CHR 0xAF],
     [CHR 0xE2, CHR 0x81, CHR 0x9F], [CHR 0xE3, CHR 0x80, CHR 0x80]]"

text \<open>
  The number of bytes of the whitespace character that \<open>s\<close> begins (ends) with,
  \<open>0\<close> when it begins (ends) with none.
\<close>

definition leading_space :: "string \<Rightarrow> nat" where
  "leading_space s =
     (case find (\<lambda>w. prefix w s) whitespace of None \<Rightarrow> 0 | Some w \<Rightarrow> length w)"

definition trailing_space :: "string \<Rightarrow> nat" where
  "trailing_space s =
     (case find (\<lambda>w. suffix w s) whitespace of None \<Rightarrow> 0 | Some w \<Rightarrow> length w)"

function lstrip :: "string \<Rightarrow> string" where
  "lstrip s = (if leading_space s = 0 then s else lstrip (drop (leading_space s) s))"
  by pat_completeness auto
termination
proof (relation "measure length")
  fix s :: string
  assume "leading_space s \<noteq> 0"
  moreover have "leading_space s \<le> length s"
    by (auto simp: leading_space_def find_Some_iff prefix_length_le split: option.splits)
  ultimately show "(drop (leading_space s) s, s) \<in> measure length"
    by simp
qed simp

function rstrip :: "string \<Rightarrow> string" where
  "rstrip s =
     (if trailing_space s = 0 then s else rstrip (take (length s - trailing_space s) s))"
  by pat_completeness auto
termination
proof (relation "measure length")
  fix s :: string
  assume "trailing_space s \<noteq> 0"
  moreover have "trailing_space s \<le> length s"
    by (auto simp: trailing_space_def find_Some_iff suffix_length_le split: option.splits)
  ultimately show "(take (length s - trailing_space s) s, s) \<in> measure length"
    by simp
qed simp

declare lstrip.simps [simp del] rstrip.simps [simp del]

definition strip :: "string \<Rightarrow> string" where
  "strip s = lstrip (rstrip s)"

fun join :: "string \<Rightarrow> string list \<Rightarrow> string" where
  "join sep [] = []"
| "join sep [x] = x"
| "join sep (x # y # ys) = x @ sep @ join sep (y # ys)"

section \<open>The argument binder: \<^verbatim>\<open>inspect.Signature.bind_partial\<close>\<close>

datatype kind =
  POSITIONAL_ONLY | POSITIONAL_OR_KEYWORD | VAR_POSITIONAL | KEYWORD_ONLY | VAR_KEYWORD

text \<open>
  An \<^verbatim>\<open>inspect.Parameter\<close>: its name, its kind, and whether \<^verbatim>\<open>param.default\<close> is
  something other than \<^verbatim>\<open>Parameter.empty\<close>.
\<close>

datatype parameter =
  Parameter (param_name: string) (param_kind: kind) (param_has_default: bool)

text \<open>
  A value of \<^verbatim>\<open>BoundArguments.arguments\<close>: the value bound to an ordinary parameter, the
  tuple bound to \<^verbatim>\<open>*args\<close>, or the dict bound to \<^verbatim>\<open>**kwargs\<close>.
\<close>

datatype 'v argval = Plain 'v | Star "'v list" | StarStar "'v dict"

definition has_key :: "'v dict \<Rightarrow> string \<Rightarrow> bool" where
  "has_key d k = (k \<in> set (map fst d))"

text \<open>
  The first loop of \<^verbatim>\<open>Signature._bind\<close> with \<^verbatim>\<open>partial=True\<close>: the positional values
  against the parameters in order. It returns the arguments bound so far and the
  parameters left for the second loop.
\<close>

fun bind_positional ::
  "parameter list \<Rightarrow> 'v list \<Rightarrow> 'v dict \<Rightarrow> 'v argval dict
     \<Rightarrow> error + ('v argval dict \<times> parameter list)" where
  "bind_positional [] [] kwargs arguments = Inr (arguments, [])"
| "bind_positional (param # parameters) [] kwargs arguments =
     (if param_kind param = VAR_POSITIONAL then Inr (arguments, parameters)
      else if has_key kwargs (param_name param) then
        (if param_kind param = POSITIONAL_ONLY
         then Inl (TypeError (repr (param_name param)
                     @ '' parameter is positional only, but was passed as a keyword''))
         else Inr (arguments, param # parameters))
      else Inr (arguments, param # parameters))"
| "bind_positional [] (arg_val # arg_vals) kwargs arguments =
     Inl (TypeError ''too many positional arguments'')"
| "bind_positional (param # parameters) (arg_val # arg_vals) kwargs arguments =
     (if param_kind param = VAR_KEYWORD \<or> param_kind param = KEYWORD_ONLY
      then Inl (TypeError ''too many positional arguments'')
      else if param_kind param = VAR_POSITIONAL
      then Inr (AList.update (param_name param) (Star (arg_val # arg_vals)) arguments,
                parameters)
      else if has_key kwargs (param_name param) \<and> param_kind param \<noteq> POSITIONAL_ONLY
      then Inl (TypeError (''multiple values for argument '' @ repr (param_name param)))
      else bind_positional parameters arg_vals kwargs
             (AList.update (param_name param) (Plain arg_val) arguments))"

text \<open>
  The second loop: the remaining parameters against the named values; \<^verbatim>\<open>kwargs.pop\<close>
  removes each name that is used. With \<^verbatim>\<open>partial=True\<close> a parameter without a value
  is passed over.
\<close>

fun bind_keywords ::
  "parameter list \<Rightarrow> 'v dict \<Rightarrow> 'v argval dict \<Rightarrow> parameter option
     \<Rightarrow> error + ('v argval dict \<times> 'v dict \<times> parameter option)" where
  "bind_keywords [] kwargs arguments kwargs_param = Inr (arguments, kwargs, kwargs_param)"
| "bind_keywords (param # parameters) kwargs arguments kwargs_param =
     (if param_kind param = VAR_KEYWORD
      then bind_keywords parameters kwargs arguments (Some param)
      else if param_kind param = VAR_POSITIONAL
      then bind_keywords parameters kwargs arguments kwargs_param
      else case map_of kwargs (param_name param) of
             None \<Rightarrow> bind_keywords parameters kwargs arguments kwargs_param
           | Some arg_val \<Rightarrow>
               if param_kind param = POSITIONAL_ONLY
               then Inl (TypeError (repr (param_name param)
                           @ '' parameter is positional only, but was passed as a keyword''))
               else bind_keywords parameters (AList.delete (param_name param) kwargs)
                      (AList.update (param_name param) (Plain arg_val) arguments)
                      kwargs_param)"

definition bind_partial ::
  "parameter list \<Rightarrow> 'v list \<Rightarrow> 'v dict \<Rightarrow> error + 'v argval dict" where
  "bind_partial sig args kwargs =
     (case bind_positional sig args kwargs [] of
        Inl e \<Rightarrow> Inl e
      | Inr (arguments, parameters) \<Rightarrow>
          (case bind_keywords parameters kwargs arguments None of
             Inl e \<Rightarrow> Inl e
           | Inr (arguments, kwargs, kwargs_param) \<Rightarrow>
               (case kwargs of
                  [] \<Rightarrow> Inr arguments
                | (k, _) # _ \<Rightarrow>
                    (case kwargs_param of
                       Some p \<Rightarrow> Inr (AList.update (param_name p) (StarStar kwargs) arguments)
                     | None \<Rightarrow>
                         Inl (TypeError (''got an unexpected keyword argument '' @ repr k))))))"

text \<open>
  The properties \<^verbatim>\<open>BoundArguments.args\<close> and \<^verbatim>\<open>BoundArguments.kwargs\<close>. Binding gives a
  \<^term>\<open>Star\<close> value to a \<^verbatim>\<open>*args\<close> parameter, a \<^term>\<open>StarStar\<close> value to a \<^verbatim>\<open>**kwargs\<close>
  parameter and a \<^term>\<open>Plain\<close> value to every other one; no other combination comes
  out of \<^const>\<open>bind_partial\<close>, and the properties add nothing for them.
\<close>

fun bound_args :: "parameter list \<Rightarrow> 'v argval dict \<Rightarrow> 'v list" where
  "bound_args [] arguments = []"
| "bound_args (param # parameters) arguments =
     (if param_kind param = VAR_KEYWORD \<or> param_kind param = KEYWORD_ONLY then []
      else case map_of arguments (param_name param) of
             None \<Rightarrow> []
           | Some arg \<Rightarrow>
               (case arg of
                  Plain v \<Rightarrow> (if param_kind param = VAR_POSITIONAL then [] else [v])
                | Star vs \<Rightarrow> (if param_kind param = VAR_POSITIONAL then vs else [])
                | StarStar d \<Rightarrow> [])
               @ bound_args parameters arguments)"

fun bound_kwargs :: "parameter list \<Rightarrow> 'v argval dict \<Rightarrow> bool \<Rightarrow> 'v dict \<Rightarrow> 'v dict" where
  "bound_kwargs [] arguments kwargs_started kwargs = kwargs"
| "bound_kwargs (param # parameters) arguments kwargs_started kwargs =
     (let started = kwargs_started \<or> param_kind param = VAR_KEYWORD
                      \<or> param_kind param = KEYWORD_ONLY
                      \<or> \<not> has_key arguments (param_name param)
      in if \<not> kwargs_started \<and> param_kind param \<noteq> VAR_KEYWORD
              \<and> param_kind param \<noteq> KEYWORD_ONLY
         then bound_kwargs parameters arguments started kwargs
         else case map_of arguments (param_name param) of
                None \<Rightarrow> bound_kwargs parameters arguments started kwargs
              | Some arg \<Rightarrow>
                  bound_kwargs parameters arguments started
                    (case arg of
                       Plain v \<Rightarrow>
                         (if param_kind param = VAR_KEYWORD then kwargs
                          else AList.update (param_name param) v kwargs)
                     | Star vs \<Rightarrow> kwargs
                     | StarStar d \<Rightarrow>
                         (if param_kind param = VAR_KEYWORD
                          then foldl (\<lambda>kw (k, v). AList.update k v kw) kwargs d
                          else kwargs)))"

section \<open>The rule registry and the dispatcher: \<^verbatim>\<open>citation\<close>\<close>

text \<open>
  A rule is a Python function returning \<^verbatim>\<open>Optional[str]\<close>. The dispatcher sees its
  declared parameters (\<^verbatim>\<open>inspect.signature(rule).parameters.values()\<close>) and calls it
  with keyword arguments only (\<^verbatim>\<open>rule(**rulekwargs)\<close>). The call may raise, and it may
  read and fill the caches of the reference store, which are the state \<^typ>\<open>'s\<close>.
\<close>

record ('v, 's) rule =
  rule_parameters :: "parameter list"
  rule_call :: "'v dict \<Rightarrow> 's \<Rightarrow> (error + string option) \<times> 's"

text \<open>
  The inner loop over the parameters of a rule: the names without a default
  (\<open>needed_keys\<close>) and whether a \<^verbatim>\<open>**kwargs\<close> parameter is declared (\<open>has_var\<close>). The
  \<^verbatim>\<open>assert\<close> fails on a parameter of any other kind.
\<close>

fun scan_parameters ::
  "parameter list \<Rightarrow> string set \<Rightarrow> bool \<Rightarrow> error + (string set \<times> bool)" where
  "scan_parameters [] needed_keys has_var = Inr (needed_keys, has_var)"
| "scan_parameters (param # rest) needed_keys has_var =
     (if param_kind param = VAR_KEYWORD then scan_parameters rest needed_keys True
      else if param_kind param \<noteq> POSITIONAL_OR_KEYWORD then Inl AssertionError
      else if \<not> param_has_default param
      then scan_parameters rest (insert (param_name param) needed_keys) has_var
      else scan_parameters rest needed_keys has_var)"

text \<open>
  The dict comprehension
  \<^verbatim>\<open>{param.name: kwargs[param.name] for param in rule_parameters if param.name in kwargs}\<close>.
\<close>

definition restrict_kwargs :: "parameter list \<Rightarrow> 'v dict \<Rightarrow> 'v dict" where
  "restrict_kwargs params kwargs =
     foldl (\<lambda>d param. case map_of kwargs (param_name param) of
                         None \<Rightarrow> d
                       | Some v \<Rightarrow> AList.update (param_name param) v d)
       [] params"

text \<open>
  The start and end banners, \<^verbatim>\<open>_start\<close> and \<^verbatim>\<open>_end\<close>.
\<close>

definition start_banner :: string where
  "start_banner = strip (''\<newline>''
     @ ''% --- AUTOGENERATED REFERENCES PRODUCED USING `diffrax.citation(...)` ---\<newline>''
     @ ''% The following references were found for the numerical techniques being used.\<newline>''
     @ ''% This does not cover e.g. any modelling techniques being used.\<newline>''
     @ ''% If you think a paper is missing from here then open an issue or pull request at\<newline>''
     @ ''% https://github.com/patrick-kidger/diffrax\<newline>'')"

definition end_banner :: string where
  "end_banner = strip (''\<newline>''
     @ ''% --- END AUTOGENERATED REFERENCES ---\<newline>'')"

text \<open>
  A record of one call \<^verbatim>\<open>rule(**rulekwargs)\<close>: the position of the rule in the
  registry, the keyword arguments of the call, and what the call returned or raised.
\<close>

datatype 'v call =
  Call (call_index: nat) (call_kwargs: "'v dict") (call_result: "error + string option")

text \<open>
  The loop \<^verbatim>\<open>for rule in citation_rules\<close>. \<open>i\<close> is the position of the rule in the
  registry. Besides the list \<open>cites\<close> and the state of the reference store, the loop
  keeps the calls it makes, in their order. An exception ends the loop.
\<close>

fun dispatch ::
  "('v, 's) rule list \<Rightarrow> nat \<Rightarrow> 'v dict \<Rightarrow> string list \<Rightarrow> 's \<Rightarrow> 'v call list
     \<Rightarrow> (error + string list) \<times> 's \<times> 'v call list" where
  "dispatch [] i kwargs cites s trace = (Inr cites, s, trace)"
| "dispatch (rule # rest) i kwargs cites s trace =
     (case scan_parameters (rule_parameters rule) {} False of
        Inl e \<Rightarrow> (Inl e, s, trace)
      | Inr (needed_keys, has_var) \<Rightarrow>
          if \<not> needed_keys \<subseteq> set (map fst kwargs)
          then dispatch rest (Suc i) kwargs cites s trace
          else
            let rulekwargs =
                  (if has_var then kwargs
                   else restrict_kwargs (rule_parameters rule) kwargs)
            in case rule_call rule rulekwargs s of
                 (Inl e, s') \<Rightarrow> (Inl e, s', trace @ [Call i rulekwargs (Inl e)])
               | (Inr cite, s') \<Rightarrow>
                   dispatch rest (Suc i) kwargs
                     (case cite of None \<Rightarrow> cites | Some c \<Rightarrow> cites @ [strip c])
                     s' (trace @ [Call i rulekwargs (Inr cite)]))"

text \<open>
  The canonical argument map: \<^verbatim>\<open>dict(bound.kwargs)\<close>, then one assignment for each pair
  of \<^verbatim>\<open>zip(_diffeqsignature.parameters.keys(), bound.args)\<close>.
\<close>

definition canonical_map :: "parameter list \<Rightarrow> 'v argval dict \<Rightarrow> 'v dict" where
  "canonical_map sig bound =
     foldl (\<lambda>kwargs (arg_name, arg_value). AList.update arg_name arg_value kwargs)
       (bound_kwargs sig bound False [])
       (zip (map param_name sig) (bound_args sig bound))"

text \<open>
  What a call of \<^verbatim>\<open>citation\<close> leaves behind: the exception it raised, if any; the text
  written to standard output; the state of the reference store; the rule calls made.
\<close>

record ('v, 's) run =
  raised :: "error option"
  stdout :: string
  store :: 's
  calls :: "'v call list"

text \<open>
  \<^verbatim>\<open>citation(*args, **kwargs)\<close>. The signature of \<^verbatim>\<open>diffeqsolve\<close>
  (\<^verbatim>\<open>_diffeqsignature\<close>, from a module that is not part of this file) and the registry
  \<^verbatim>\<open>citation_rules\<close> are parameters. \<^verbatim>\<open>print\<close> writes its argument and a newline.
\<close>

definition citation ::
  "parameter list \<Rightarrow> ('v, 's) rule list \<Rightarrow> 'v list \<Rightarrow> 'v dict \<Rightarrow> 's \<Rightarrow> ('v, 's) run" where
  "citation diffeqsignature citation_rules args kwargs s =
     (case bind_partial diffeqsignature args kwargs of
        Inl e \<Rightarrow> \<lparr>raised = Some e, stdout = [], store = s, calls = []\<rparr>
      | Inr bound \<Rightarrow>
          (case dispatch citation_rules 0 (canonical_map diffeqsignature bound)
                  [start_banner] s [] of
             (Inl e, s', trace) \<Rightarrow> \<lparr>raised = Some e, stdout = [], store = s', calls = trace\<rparr>
           | (Inr cites, s', trace) \<Rightarrow>
               \<lparr>raised = None,
                stdout = join ''\<newline>\<newline>'' (cites @ [end_banner]) @ ''\<newline>'',
                store = s', calls = trace\<rparr>))"

section \<open>The reference store\<close>

subsection \<open>The pattern \<^verbatim>\<open>_reference_regex\<close>\<close>

text \<open>
  \<^verbatim>\<open>re.compile(r"```bibtex([^`]*)```")\<close>: the opening fence, any characters other than a
  backquote (the group), the closing fence. \<open>match_here s\<close> is the match of the pattern
  at the start of \<open>s\<close>: the group and the text after the match. The group is greedy and
  the fence starts with a backquote, so the group is the longest run without one.
\<close>

definition match_here :: "string \<Rightarrow> (string \<times> string) option" where
  "match_here s =
     (if prefix ''```bibtex'' s
      then let body = drop (length ''```bibtex'') s;
               found = takeWhile (\<lambda>c. c \<noteq> CHR 0x60) body;
               rest = dropWhile (\<lambda>c. c \<noteq> CHR 0x60) body
           in if prefix ''```'' rest then Some (found, drop (length ''```'') rest) else None
      else None)"

text \<open>
  \<^verbatim>\<open>pattern.findall(string)\<close> for this pattern: the groups of the matches found from left
  to right, each search starting where the last match ended.
\<close>

function findall :: "string \<Rightarrow> string list" where
  "findall [] = []"
| "findall (c # cs) =
     (case match_here (c # cs) of
        Some (found, rest) \<Rightarrow> found # findall rest
      | None \<Rightarrow> findall cs)"
  by pat_completeness auto
termination
proof -
  have shorter: "length r < length s" if m: "match_here s = Some (g, r)" for s g r
  proof -
    let ?body = "drop (length ''```bibtex'') s"
    from m have p: "prefix ''```bibtex'' s" and
      r: "r = drop (length ''```'') (dropWhile (\<lambda>c. c \<noteq> CHR 0x60) ?body)"
      by (auto simp: match_here_def Let_def split: if_splits)
    from p have "length ''```bibtex'' \<le> length s" by (rule prefix_length_le)
    moreover have "length r \<le> length ?body"
      unfolding r using length_dropWhile_le [of "\<lambda>c. c \<noteq> CHR 0x60" ?body] by simp
    ultimately show ?thesis by simp
  qed
  show ?thesis
    by (relation "measure length") (auto dest: shorter)
qed

subsection \<open>\<^verbatim>\<open>inspect.cleandoc\<close>\<close>

text \<open>
  Lengths and slices of a Python string count characters, which are code points: in the
  UTF-8 encoding, the bytes that are not continuation bytes.
\<close>

definition is_continuation :: "char \<Rightarrow> bool" where
  "is_continuation c = (128 \<le> (of_char c :: nat) \<and> (of_char c :: nat) < 192)"

definition len :: "string \<Rightarrow> nat" where
  "len s = length (filter (\<lambda>c. \<not> is_continuation c) s)"

text \<open>The slice \<^verbatim>\<open>s[n:]\<close>.\<close>

fun slice_from :: "nat \<Rightarrow> string \<Rightarrow> string" where
  "slice_from 0 s = s"
| "slice_from (Suc n) [] = []"
| "slice_from (Suc n) (c # cs) = slice_from n (dropWhile is_continuation cs)"

text \<open>
  \<^verbatim>\<open>str.expandtabs()\<close> with the tab size 8: \<open>j\<close> is the column, which a line feed or a
  carriage return sets back to 0.
\<close>

fun expandtabs_from :: "nat \<Rightarrow> string \<Rightarrow> string" where
  "expandtabs_from j [] = []"
| "expandtabs_from j (c # cs) =
     (if c = CHR 0x09
      then replicate (8 - j mod 8) CHR '' '' @ expandtabs_from (j + (8 - j mod 8)) cs
      else c # expandtabs_from
                 (if c = CHR 0x0A \<or> c = CHR 0x0D then 0
                  else if is_continuation c then j else j + 1) cs)"

definition expandtabs :: "string \<Rightarrow> string" where
  "expandtabs s = expandtabs_from 0 s"

text \<open>\<^verbatim>\<open>s.split('\n')\<close>: never an empty list.\<close>

fun split_lines :: "string \<Rightarrow> string list" where
  "split_lines [] = [[]]"
| "split_lines (c # cs) =
     (if c = CHR 0x0A then [] # split_lines cs
      else case split_lines cs of
             line # lines \<Rightarrow> (c # line) # lines
           | [] \<Rightarrow> [[c]])"

text \<open>
  The loop that finds the margin: the least indentation of the lines with content.
  \<^const>\<open>None\<close> stands for the initial \<^verbatim>\<open>sys.maxsize\<close>, which no indentation reaches.
\<close>

fun find_margin :: "string list \<Rightarrow> nat option \<Rightarrow> nat option" where
  "find_margin [] margin = margin"
| "find_margin (line # lines) margin =
     (let content = len (lstrip line)
      in if content \<noteq> 0
         then let indent = len line - content
              in find_margin lines
                   (Some (case margin of None \<Rightarrow> indent | Some m \<Rightarrow> min m indent))
         else find_margin lines margin)"

text \<open>
  \<^verbatim>\<open>inspect.cleandoc(doc)\<close>, as in CPython 3.11. The two \<^verbatim>\<open>while\<close> loops remove the
  empty lines at the end and at the beginning.
\<close>

definition cleandoc :: "string \<Rightarrow> string" where
  "cleandoc doc =
     (let lines = split_lines (expandtabs doc);
          margin = find_margin (tl lines) None;
          first = lstrip (hd lines);
          others = (case margin of
                      None \<Rightarrow> tl lines
                    | Some m \<Rightarrow> map (slice_from m) (tl lines));
          lines = rev (dropWhile (\<lambda>l. l = []) (rev (first # others)));
          lines = dropWhile (\<lambda>l. l = []) lines
      in join ''\<newline>'' lines)"

subsection \<open>Objects and \<^verbatim>\<open>functools.lru_cache\<close>\<close>

text \<open>
  What the reference store sees of a Python object: its identity \<^verbatim>\<open>id(obj)\<close>; how its
  \<^verbatim>\<open>__eq__\<close> and \<^verbatim>\<open>__hash__\<close> behave; its \<^verbatim>\<open>__doc__\<close>, which may be \<^verbatim>\<open>None\<close>. Classes and
  functions compare and hash by identity. A class may define equality by value
  (Equinox modules, which the solvers are, do): \<open>ByValue v\<close> objects with the same
  \<open>v\<close> are equal and have the same hash. \<open>Unhashable e\<close>: \<^verbatim>\<open>hash(obj)\<close> raises \<open>e\<close>.
\<close>

datatype equality = ByIdentity | ByValue nat | Unhashable error

record pyobject =
  obj_id :: nat
  obj_equality :: equality
  obj_doc :: "string option"

text \<open>
  The comparison of a key of the cache dict with the key looked up:
  \<^verbatim>\<open>key is obj or key == obj\<close>.
\<close>

definition key_eq :: "pyobject \<Rightarrow> pyobject \<Rightarrow> bool" where
  "key_eq key obj =
     (obj_id key = obj_id obj
      \<or> (case (obj_equality key, obj_equality obj) of
            (ByValue v, ByValue w) \<Rightarrow> v = w
          | _ \<Rightarrow> False))"

text \<open>
  The state of a function decorated with \<^verbatim>\<open>functools.lru_cache(maxsize=None)\<close>: the
  cache dict (keys in insertion order) and the counters of \<^verbatim>\<open>cache_info()\<close>.
\<close>

record 'r lru_cache =
  cache :: "(pyobject \<times> 'r) list"
  hits :: nat
  misses :: nat

definition empty_cache :: "'r lru_cache" where
  "empty_cache = \<lparr>cache = [], hits = 0, misses = 0\<rparr>"

text \<open>
  A call of the decorated function with the one argument \<open>obj\<close>: hash the key; on a
  hit count it and return the cached result; on a miss count it, call the function,
  and cache the result unless the function raised.
\<close>

definition lru_cache_call ::
  "(pyobject \<Rightarrow> error + 'r) \<Rightarrow> pyobject \<Rightarrow> 'r lru_cache \<Rightarrow> (error + 'r) \<times> 'r lru_cache" where
  "lru_cache_call user_function obj c =
     (case obj_equality obj of
        Unhashable e \<Rightarrow> (Inl e, c)
      | _ \<Rightarrow>
          (case find (\<lambda>(key, result). key_eq key obj) (cache c) of
             Some (key, result) \<Rightarrow> (Inr result, c\<lparr>hits := hits c + 1\<rparr>)
           | None \<Rightarrow>
               (case user_function obj of
                  Inl e \<Rightarrow> (Inl e, c\<lparr>misses := misses c + 1\<rparr>)
                | Inr result \<Rightarrow>
                    (Inr result,
                     c\<lparr>misses := misses c + 1, cache := cache c @ [(obj, result)]\<rparr>))))"

subsection \<open>\<^verbatim>\<open>_parse_reference\<close> and \<^verbatim>\<open>_parse_reference_multi\<close>\<close>

text \<open>
  The bodies of the two functions. \<^verbatim>\<open>findall\<close> raises \<^verbatim>\<open>TypeError\<close> when \<^verbatim>\<open>obj.__doc__\<close> is
  \<^verbatim>\<open>None\<close>; the unpacking \<^verbatim>\<open>[reference] = ...\<close> raises \<^verbatim>\<open>ValueError\<close> unless the list has
  one element.
\<close>

definition scan_references :: "pyobject \<Rightarrow> error + string list" where
  "scan_references obj =
     (case obj_doc obj of
        None \<Rightarrow> Inl (TypeError (''expected string or bytes-like object, got '' @ repr ''NoneType''))
      | Some doc \<Rightarrow> Inr (map cleandoc (findall doc)))"

definition parse_reference_body :: "pyobject \<Rightarrow> error + string" where
  "parse_reference_body obj =
     (case scan_references obj of
        Inl e \<Rightarrow> Inl e
      | Inr references \<Rightarrow>
          (case references of
             [] \<Rightarrow> Inl (ValueError ''not enough values to unpack (expected 1, got 0)'')
           | [reference] \<Rightarrow> Inr reference
           | _ # _ # _ \<Rightarrow> Inl (ValueError ''too many values to unpack (expected 1)'')))"

definition parse_reference_multi_body :: "pyobject \<Rightarrow> error + string list" where
  "parse_reference_multi_body obj = scan_references obj"

text \<open>The caches of the two decorated functions: the state of the reference store.\<close>

record reference_store =
  reference_cache :: "string lru_cache"
  reference_multi_cache :: "string list lru_cache"

definition empty_store :: reference_store where
  "empty_store = \<lparr>reference_cache = empty_cache, reference_multi_cache = empty_cache\<rparr>"

definition parse_reference ::
  "pyobject \<Rightarrow> reference_store \<Rightarrow> (error + string) \<times> reference_store" where
  "parse_reference obj st =
     (case lru_cache_call parse_reference_body obj (reference_cache st) of
        (result, c) \<Rightarrow> (result, st\<lparr>reference_cache := c\<rparr>))"

definition parse_reference_multi ::
  "pyobject \<Rightarrow> reference_store \<Rightarrow> (error + string list) \<times> reference_store" where
  "parse_reference_multi obj st =
     (case lru_cache_call parse_reference_multi_body obj (reference_multi_cache st) of
        (result, c) \<Rightarrow> (result, st\<lparr>reference_multi_cache := c\<rparr>))"

section \<open>Configuration values and the names imported by the module\<close>

text \<open>
  A class: the class object itself and \<^verbatim>\<open>cls.__name__\<close>.
\<close>

record pyclass =
  class_object :: pyobject
  class_name :: string

text \<open>
  The values the rules look at: \<^verbatim>\<open>None\<close>; a \<^verbatim>\<open>bool\<close>; a concrete number (a Python number
  or a JAX array holding one); a traced JAX value (\<^verbatim>\<open>jax.core.Tracer\<close>); a generator
  object, with the items it would iterate over; an instance of a class, given by the
  object itself, its type and its attributes.
\<close>

datatype pyval =
    PyNone
  | PyBool bool
  | PyNum real
  | PyTracer
  | PyGenerator "pyval list"
  | PyInstance pyobject pyclass "(string \<times> pyval) list"

text \<open>
  \<^verbatim>\<open>type(x) is C\<close> for a class \<open>C\<close> of the library (which is none of the types of the
  other values). Classes compare by identity, so \<^verbatim>\<open>type(x) in (C1, ..., Cn)\<close> is the same
  test against each of the classes.
\<close>

fun type_is :: "pyval \<Rightarrow> pyclass \<Rightarrow> bool" where
  "type_is (PyInstance self cls attrs) C = (obj_id (class_object cls) = obj_id (class_object C))"
| "type_is _ C = False"

text \<open>
  The attribute access \<^verbatim>\<open>x.name\<close>. Only the attributes of instances are modelled; the
  payload of the \<^verbatim>\<open>AttributeError\<close> is the name.
\<close>

fun getattr :: "pyval \<Rightarrow> string \<Rightarrow> error + pyval" where
  "getattr (PyInstance self cls attrs) name =
     (case map_of attrs name of Some v \<Rightarrow> Inr v | None \<Rightarrow> Inl (AttributeError name))"
| "getattr _ name = Inl (AttributeError name)"

text \<open>
  The truth value \<^verbatim>\<open>bool(x)\<close>: a generator object is true, as is an instance of a class
  that defines neither \<^verbatim>\<open>__bool__\<close> nor \<^verbatim>\<open>__len__\<close>; the truth value of a traced value
  cannot be taken (JAX raises a \<^verbatim>\<open>TracerBoolConversionError\<close>, a \<^verbatim>\<open>TypeError\<close>).
\<close>

fun truthy :: "pyval \<Rightarrow> error + bool" where
  "truthy PyNone = Inr False"
| "truthy (PyBool b) = Inr b"
| "truthy (PyNum x) = Inr (x \<noteq> 0)"
| "truthy PyTracer = Inl (TypeError ''TracerBoolConversionError'')"
| "truthy (PyGenerator items) = Inr True"
| "truthy (PyInstance self cls attrs) = Inr True"

text \<open>\<^verbatim>\<open>a or b\<close>: \<open>a\<close> when it is true, \<open>b\<close> otherwise.\<close>

definition py_or :: "pyval \<Rightarrow> pyval \<Rightarrow> error + pyval" where
  "py_or a b = (case truthy a of Inl e \<Rightarrow> Inl e | Inr t \<Rightarrow> Inr (if t then a else b))"


text \<open>\<^verbatim>\<open>sub in s\<close> for strings.\<close>

fun contains :: "string \<Rightarrow> string \<Rightarrow> bool" where
  "contains sub [] = (sub = [])"
| "contains sub (c # cs) = (prefix sub (c # cs) \<or> contains sub cs)"

text \<open>
  The names the module imports from the rest of the library and from JAX, which are
  parameters here: \<^verbatim>\<open>str(jax.__version__)\<close>, the classifier \<^verbatim>\<open>is_sde\<close>,
  \<^verbatim>\<open>jtu.tree_leaves(tree, is_leaf=...)\<close>, \<^verbatim>\<open>isinstance\<close> for the classes of the library, and
  the classes that \<^verbatim>\<open>_solvers\<close> and \<^verbatim>\<open>_pid_controller\<close> name.
\<close>

record env =
  jax_version :: string
  is_sde :: "pyval \<Rightarrow> bool"
  tree_leaves :: "(pyval \<Rightarrow> bool) \<Rightarrow> pyval \<Rightarrow> pyval list"
  isinstance :: "pyval \<Rightarrow> pyclass \<Rightarrow> bool"
  Tsit5 :: pyclass
  Kvaerno3 :: pyclass
  Kvaerno4 :: pyclass
  Kvaerno5 :: pyclass
  ReversibleHeun :: pyclass
  LeapfrogMidpoint :: pyclass
  ShARK :: pyclass
  SRA1 :: pyclass
  SlowRK :: pyclass
  GeneralShARK :: pyclass
  SPaRK :: pyclass
  SEA :: pyclass
  Dopri5 :: pyclass
  Dopri8 :: pyclass
  SubSaveAt :: pyclass
  PIDController :: pyclass

section \<open>The rules\<close>

text \<open>The literal of \<^verbatim>\<open>_thesis_cite\<close> (line 135), before \<^verbatim>\<open>.strip()\<close>.\<close>

definition thesis_cite_literal :: string where
  "thesis_cite_literal =
     ''\<newline>''
     @ ''phdthesis{kidger2021on,\<newline>''
     @ ''    title={{O}n {N}eural {D}ifferential {E}quations},\<newline>''
     @ ''    author={Patrick Kidger},\<newline>''
     @ ''    year={2021},\<newline>''
     @ ''    school={University of Oxford},\<newline>''
     @ ''}\<newline>''"

text \<open>The three literals of \<^verbatim>\<open>_diffrax\<close> (lines 184, 188 and 209).\<close>

definition diffrax_text_1 :: string where
  "diffrax_text_1 =
     ''\<newline>''
     @ ''% You are using Diffrax, which is citable as:\<newline>''"

definition diffrax_text_2 :: string where
  "diffrax_text_2 =
     ''\<newline>''
     @ ''\<newline>''
     @ ''% You are using Equinox, which is citable as:\<newline>''
     @ ''@article{kidger2021equinox,\<newline>''
     @ ''    author={Patrick Kidger and Cristian Garcia},\<newline>''
     @ ''    title={{E}quinox: neural networks in {JAX} via callable {P}y{T}rees and\<newline>''
     @ ''           filtered transformations},\<newline>''
     @ ''    year={2021},\<newline>''
     @ ''    journal={Differentiable Programming workshop at Neural Information Processing\<newline>''
     @ ''             Systems 2021}\<newline>''
     @ ''}\<newline>''
     @ ''\<newline>''
     @ ''% You are using JAX, which is citable as:\<newline>''
     @ ''@software{jax2018github,\<newline>''
     @ ''  author = {James Bradbury and Roy Frostig and Peter Hawkins and Matthew James Johnson\<newline>''
     @ ''            and Chris Leary and Dougal Maclaurin and George Necula and Adam Paszke and\<newline>''
     @ ''            Jake Vander{P}las and Skye Wanderman-{M}ilne and Qiao Zhang},\<newline>''
     @ ''  title = {{JAX}: composable transformations of {P}ython+{N}um{P}y programs},\<newline>''
     @ ''  url = {http://github.com/google/jax},\<newline>''
     @ ''  version = {''"

definition diffrax_text_3 :: string where
  "diffrax_text_3 =
     ''},\<newline>''
     @ ''  year = {2018},\<newline>''
     @ ''}\<newline>''"

text \<open>The literals of \<^verbatim>\<open>_solvers\<close> (lines 495, 498, 508, 512, 525 and 538).\<close>

definition solvers_text_using :: string where
  "solvers_text_using =
     ''\<newline>''
     @ ''% You are using the ''"

definition solvers_text_introduced :: string where
  "solvers_text_introduced =
     '' solver, which was introduced in:\<newline>''"

definition dopri5_text_1 :: string where
  "dopri5_text_1 =
     ''\<newline>''
     @ ''% Dormand--Prince 5(4) was introduced in:\<newline>''"

definition dopri5_text_2 :: string where
  "dopri5_text_2 =
     ''\<newline>''
     @ ''% The specific implementation used here is the improved version (different Butcher\<newline>''
     @ ''% tableau) introduced in:\<newline>''"

definition dopri8_text_1 :: string where
  "dopri8_text_1 =
     ''\<newline>''
     @ ''% Dormand--Prince 8(7) was introduced in:\<newline>''"

definition dopri8_text_2 :: string where
  "dopri8_text_2 =
     ''\<newline>''
     @ ''% Output via `SaveAt(ts=...)` or `SaveAt(dense=True)` is done using the\<newline>''
     @ ''% Dormand--Prince 8(7) interpolant introduced in:\<newline>''"





definition thesis_cite :: string where
  "thesis_cite = strip thesis_cite_literal"



text \<open>\<^verbatim>\<open>_diffrax()\<close>.\<close>

definition diffrax :: "env \<Rightarrow> string" where
  "diffrax env = diffrax_text_1 @ thesis_cite @ diffrax_text_2 @ jax_version env @ diffrax_text_3"

text \<open>
  \<^verbatim>\<open>_solvers(solver, saveat=None)\<close>. The unpacking \<^verbatim>\<open>ref1, ref2 = ...\<close> raises \<^verbatim>\<open>ValueError\<close>
  unless the list has two elements. In the branch of \<^verbatim>\<open>Dopri8\<close>, the second operand of
  \<^verbatim>\<open>or\<close> is a generator expression: a generator object over the leaves of \<^verbatim>\<open>saveat\<close>,
  none of which is looked at.
\<close>

definition unpack2 :: "string list \<Rightarrow> error + string \<times> string" where
  "unpack2 refs =
     (case refs of
        [] \<Rightarrow> Inl (ValueError ''not enough values to unpack (expected 2, got 0)'')
      | [ref1] \<Rightarrow> Inl (ValueError ''not enough values to unpack (expected 2, got 1)'')
      | [ref1, ref2] \<Rightarrow> Inr (ref1, ref2)
      | _ # _ # _ # _ \<Rightarrow> Inl (ValueError ''too many values to unpack (expected 2)''))"

definition is_subsaveat :: "env \<Rightarrow> pyval \<Rightarrow> bool" where
  "is_subsaveat env x = isinstance env x (SubSaveAt env)"

definition solvers ::
  "env \<Rightarrow> pyval \<Rightarrow> pyval \<Rightarrow> reference_store \<Rightarrow> (error + string option) \<times> reference_store" where
  "solvers env solver saveat st =
     (if list_ex (type_is solver)
           [Tsit5 env, Kvaerno3 env, Kvaerno4 env, Kvaerno5 env, ReversibleHeun env,
            LeapfrogMidpoint env, ShARK env, SRA1 env, SlowRK env, GeneralShARK env,
            SPaRK env, SEA env]
      then (case solver of
              PyInstance self cls attrs \<Rightarrow>
                (case parse_reference self st of
                   (Inl e, st') \<Rightarrow> (Inl e, st')
                 | (Inr reference, st') \<Rightarrow>
                     (Inr (Some (solvers_text_using @ class_name cls
                                  @ solvers_text_introduced @ reference)), st'))
            | _ \<Rightarrow> (Inr None, st))
      else if type_is solver (Dopri5 env)
      then (case parse_reference_multi (class_object (Dopri5 env)) st of
              (Inl e, st') \<Rightarrow> (Inl e, st')
            | (Inr refs, st') \<Rightarrow>
                (case unpack2 refs of
                   Inl e \<Rightarrow> (Inl e, st')
                 | Inr (ref1, ref2) \<Rightarrow>
                     if \<not> contains ''Dormand'' ref1 then (Inl AssertionError, st')
                     else if \<not> contains ''Prince'' ref1 then (Inl AssertionError, st')
                     else if \<not> contains ''Shampine'' ref2 then (Inl AssertionError, st')
                     else (Inr (Some (dopri5_text_1 @ ref1 @ dopri5_text_2 @ ref2)), st')))
      else if type_is solver (Dopri8 env)
      then (case parse_reference_multi (class_object (Dopri8 env)) st of
              (Inl e, st') \<Rightarrow> (Inl e, st')
            | (Inr refs, st') \<Rightarrow>
                (case unpack2 refs of
                   Inl e \<Rightarrow> (Inl e, st')
                 | Inr (ref1, ref2) \<Rightarrow>
                     if \<not> contains ''Dormand'' ref1 then (Inl AssertionError, st')
                     else if \<not> contains ''Prince'' ref1 then (Inl AssertionError, st')
                     else if \<not> contains ''Bogacki'' ref2 then (Inl AssertionError, st')
                     else if \<not> contains ''Shampine'' ref2 then (Inl AssertionError, st')
                     else
                       let msg = dopri8_text_1 @ ref1
                       in if saveat = PyNone then (Inr (Some msg), st')
                          else
                            (case getattr saveat ''dense'' of
                               Inl e \<Rightarrow> (Inl e, st')
                             | Inr dense \<Rightarrow>
                                 (case py_or dense
                                         (PyGenerator
                                            (tree_leaves env (is_subsaveat env) saveat)) of
                                    Inl e \<Rightarrow> (Inl e, st')
                                  | Inr cond \<Rightarrow>
                                      (case truthy cond of
                                         Inl e \<Rightarrow> (Inl e, st')
                                       | Inr t \<Rightarrow>
                                           if t
                                           then (Inr (Some (msg @ dopri8_text_2 @ ref2)), st')
                                           else (Inr (Some msg), st'))))))
      else (Inr None, st))"


text \<open>
  The three functions as rules of the registry. A rule is called with keyword arguments:
  a name that is not a parameter, or a missing parameter without a default, is a
  \<^verbatim>\<open>TypeError\<close> of the call (no rule here has more than one such parameter); a parameter
  with a default that is not given takes the default, \<^verbatim>\<open>None\<close>.
\<close>

definition check_call :: "string \<Rightarrow> parameter list \<Rightarrow> 'v dict \<Rightarrow> error option" where
  "check_call fname params kwargs =
     (case find (\<lambda>k. k \<notin> set (map param_name params)) (map fst kwargs) of
        Some k \<Rightarrow> Some (TypeError (fname @ ''() got an unexpected keyword argument '' @ repr k))
      | None \<Rightarrow>
          (case find (\<lambda>p. \<not> param_has_default p \<and> \<not> has_key kwargs (param_name p)) params of
             Some p \<Rightarrow>
               Some (TypeError (fname @ ''() missing 1 required positional argument: ''
                                @ repr (param_name p)))
           | None \<Rightarrow> None))"

definition argument :: "pyval dict \<Rightarrow> string \<Rightarrow> pyval" where
  "argument kwargs name = (case map_of kwargs name of None \<Rightarrow> PyNone | Some v \<Rightarrow> v)"

definition diffrax_rule :: "env \<Rightarrow> (pyval, reference_store) rule" where
  "diffrax_rule env =
     \<lparr>rule_parameters = [],
      rule_call = (\<lambda>kwargs st.
        case check_call ''_diffrax'' [] kwargs of
          Some e \<Rightarrow> (Inl e, st)
        | None \<Rightarrow> (Inr (Some (diffrax env)), st))\<rparr>"





section \<open>Notions used in the statements\<close>

text \<open>
  The descriptor of a rule in the words of the specification: the required names (the
  declared parameters without a default), whether the rule accepts extra arguments
  (declares \<^verbatim>\<open>**kwargs\<close>), and admission (every required name is a key of the map).
  \<open>valid_rule\<close> is the condition of the \<^verbatim>\<open>assert\<close> in the loop over the parameters.
\<close>

definition required_names :: "('v, 's) rule \<Rightarrow> string set" where
  "required_names rule =
     set (map param_name
            (filter (\<lambda>p. param_kind p = POSITIONAL_OR_KEYWORD \<and> \<not> param_has_default p)
               (rule_parameters rule)))"


definition accepts_extra :: "('v, 's) rule \<Rightarrow> bool" where
  "accepts_extra rule = (VAR_KEYWORD \<in> set (map param_kind (rule_parameters rule)))"

definition admitted :: "('v, 's) rule \<Rightarrow> 'v dict \<Rightarrow> bool" where
  "admitted rule kwargs = (required_names rule \<subseteq> set (map fst kwargs))"

definition valid_rule :: "('v, 's) rule \<Rightarrow> bool" where
  "valid_rule rule =
     list_all (\<lambda>p. param_kind p = POSITIONAL_OR_KEYWORD \<or> param_kind p = VAR_KEYWORD)
       (rule_parameters rule)"

text \<open>
  The signatures the binder is used with: \<^verbatim>\<open>diffeqsolve\<close> is an ordinary function, with
  no \<^verbatim>\<open>*args\<close> and no \<^verbatim>\<open>**kwargs\<close> parameter.
\<close>

definition no_var_parameters :: "parameter list \<Rightarrow> bool" where
  "no_var_parameters sig =
     list_all (\<lambda>p. param_kind p \<noteq> VAR_POSITIONAL \<and> param_kind p \<noteq> VAR_KEYWORD) sig"

text \<open>
  The block a call contributes to the document: the stripped text when the call
  returned a string, nothing when it returned \<^verbatim>\<open>None\<close> or raised.
\<close>

fun block_of :: "'v call \<Rightarrow> string list" where
  "block_of (Call i kw (Inr (Some c))) = [strip c]"
| "block_of (Call i kw (Inr None)) = []"
| "block_of (Call i kw (Inl e)) = []"

text \<open>
  The keyword arguments a rule is to be called with, in the words of the specification:
  the whole map for a rule that accepts extra arguments, the map restricted to the
  declared parameters otherwise.
\<close>

definition rule_kwargs :: "('v, 's) rule \<Rightarrow> 'v dict \<Rightarrow> 'v dict" where
  "rule_kwargs rule kwargs =
     (if accepts_extra rule then kwargs else restrict_kwargs (rule_parameters rule) kwargs)"

text \<open>
  Auxiliary notions for the invariant of the loop: the position and arguments of a
  call; the calls expected from the first \<open>m\<close> rules of a registry whose first rule
  has position \<open>i\<close>; and what holds of the calls \<open>new\<close> added by the loop.
\<close>

definition call_key :: "'v call \<Rightarrow> nat \<times> 'v dict" where
  "call_key c = (call_index c, call_kwargs c)"

definition expected_calls ::
  "('v, 's) rule list \<Rightarrow> 'v dict \<Rightarrow> nat \<Rightarrow> nat \<Rightarrow> (nat \<times> 'v dict) list" where
  "expected_calls rules kw i m =
     map (\<lambda>j. (i + j, rule_kwargs (rules ! j) kw))
       (filter (\<lambda>j. admitted (rules ! j) kw) [0..<m])"

definition trace_ok ::
  "('v, 's) rule list \<Rightarrow> 'v dict \<Rightarrow> nat \<Rightarrow> string list \<Rightarrow> (error + string list)
     \<Rightarrow> 'v call list \<Rightarrow> nat \<Rightarrow> bool" where
  "trace_ok rules kw i cites res new m =
     (m \<le> length rules \<and> map call_key new = expected_calls rules kw i m
       \<and> (case res of
             Inr cites' \<Rightarrow> m = length rules \<and> cites' = cites @ concat (map block_of new)
                \<and> list_all valid_rule rules \<and> (\<forall>c \<in> set new. \<exists>x. call_result c = Inr x)
           | Inl e \<Rightarrow> (e = AssertionError \<and> \<not> list_all valid_rule rules)
                \<or> (new \<noteq> [] \<and> call_result (last new) = Inl e)))"

text \<open>
  Signatures in which every parameter that takes a positional value can also be given
  by name (no positional-only parameter, no \<^verbatim>\<open>*args\<close>), as that of \<^verbatim>\<open>diffeqsolve\<close>.
\<close>

definition nameable_parameters :: "parameter list \<Rightarrow> bool" where
  "nameable_parameters sig =
     list_all (\<lambda>p. param_kind p \<noteq> VAR_POSITIONAL \<and> param_kind p \<noteq> POSITIONAL_ONLY) sig"

text \<open>
  The classes that the branches of \<^verbatim>\<open>_solvers\<close> before the one of \<^verbatim>\<open>Dopri8\<close> test for.
\<close>

definition other_solver_classes :: "env \<Rightarrow> pyclass list" where
  "other_solver_classes env =
     [Tsit5 env, Kvaerno3 env, Kvaerno4 env, Kvaerno5 env, ReversibleHeun env,
      LeapfrogMidpoint env, ShARK env, SRA1 env, SlowRK env, GeneralShARK env,
      SPaRK env, SEA env, Dopri5 env]"

text \<open>
  A byte that occurs in no whitespace character.
\<close>

definition solid :: "char \<Rightarrow> bool" where
  "solid c = (\<forall>w \<in> set whitespace. c \<notin> set w)"


definition cache_holds :: "(pyobject \<Rightarrow> error + 'r) \<Rightarrow> 'r lru_cache \<Rightarrow> pyobject \<Rightarrow> bool" where
  "cache_holds f c obj =
     list_all (\<lambda>(key, result). key_eq key obj \<longrightarrow> f obj = Inr result) (cache c)"




section \<open>Values for the closed examples\<close>

text \<open>
  A signature for the closed examples: the leading parameters of \<^verbatim>\<open>diffeqsolve\<close> and
  the keyword-only parameters that the rules of this file name.
\<close>

definition example_signature :: "parameter list" where
  "example_signature =
     [Parameter ''terms'' POSITIONAL_OR_KEYWORD False,
      Parameter ''solver'' POSITIONAL_OR_KEYWORD False,
      Parameter ''t0'' POSITIONAL_OR_KEYWORD False,
      Parameter ''t1'' POSITIONAL_OR_KEYWORD False,
      Parameter ''dt0'' POSITIONAL_OR_KEYWORD False,
      Parameter ''y0'' POSITIONAL_OR_KEYWORD False,
      Parameter ''args'' POSITIONAL_OR_KEYWORD True,
      Parameter ''saveat'' KEYWORD_ONLY True,
      Parameter ''stepsize_controller'' KEYWORD_ONLY True,
      Parameter ''adjoint'' KEYWORD_ONLY True]"





text \<open>
  An environment with distinct classes, of which \<^verbatim>\<open>Dopri8\<close> has a documentation text with
  two reference blocks; a solver of type \<^verbatim>\<open>Dopri8\<close>; a \<^verbatim>\<open>SaveAt\<close> that is not dense; a
  \<^verbatim>\<open>PIDController\<close> whose \<^verbatim>\<open>dcoeff\<close> is traced.
\<close>

definition example_class :: "nat \<Rightarrow> string \<Rightarrow> string option \<Rightarrow> pyclass" where
  "example_class n name doc =
     \<lparr>class_object = \<lparr>obj_id = n, obj_equality = ByIdentity, obj_doc = doc\<rparr>,
      class_name = name\<rparr>"

definition example_dopri8_doc :: string where
  "example_dopri8_doc =
     ''The Dormand--Prince 8(7) method.\<newline>''
     @ ''\<newline>''
     @ ''    ??? cite\<newline>''
     @ ''\<newline>''
     @ ''        ```bibtex\<newline>''
     @ ''        @article{prince1981high,\<newline>''
     @ ''            author={Prince, P. J. and Dormand, J. R.},\<newline>''
     @ ''            title={High order embedded {R}unge--{K}utta formulae},\<newline>''
     @ ''            year={1981}\<newline>''
     @ ''        }\<newline>''
     @ ''        ```\<newline>''
     @ ''\<newline>''
     @ ''        ```bibtex\<newline>''
     @ ''        @article{shampine1986some,\<newline>''
     @ ''            author={Bogacki, P. and Shampine, L. F.},\<newline>''
     @ ''            year={1986}\<newline>''
     @ ''        }\<newline>''
     @ ''        ```\<newline>''
     @ ''    ''"

definition example_ref1 :: string where
  "example_ref1 =
     ''@article{prince1981high,\<newline>''
     @ ''    author={Prince, P. J. and Dormand, J. R.},\<newline>''
     @ ''    title={High order embedded {R}unge--{K}utta formulae},\<newline>''
     @ ''    year={1981}\<newline>''
     @ ''}''"

definition example_ref2 :: string where
  "example_ref2 =
     ''@article{shampine1986some,\<newline>''
     @ ''    author={Bogacki, P. and Shampine, L. F.},\<newline>''
     @ ''    year={1986}\<newline>''
     @ ''}''"

definition example_env :: env where
  "example_env =
     \<lparr>jax_version = ''0.4.23'',
      is_sde = (\<lambda>terms. False),
      tree_leaves = (\<lambda>is_leaf tree. [tree]),
      isinstance = type_is,
      Tsit5 = example_class 1 ''Tsit5'' None,
      Kvaerno3 = example_class 2 ''Kvaerno3'' None,
      Kvaerno4 = example_class 3 ''Kvaerno4'' None,
      Kvaerno5 = example_class 4 ''Kvaerno5'' None,
      ReversibleHeun = example_class 5 ''ReversibleHeun'' None,
      LeapfrogMidpoint = example_class 6 ''LeapfrogMidpoint'' None,
      ShARK = example_class 7 ''ShARK'' None,
      SRA1 = example_class 8 ''SRA1'' None,
      SlowRK = example_class 9 ''SlowRK'' None,
      GeneralShARK = example_class 10 ''GeneralShARK'' None,
      SPaRK = example_class 11 ''SPaRK'' None,
      SEA = example_class 12 ''SEA'' None,
      Dopri5 = example_class 13 ''Dopri5'' None,
      Dopri8 = example_class 14 ''Dopri8'' (Some example_dopri8_doc),
      SubSaveAt = example_class 15 ''SubSaveAt'' None,
      PIDController = example_class 16 ''PIDController'' None\<rparr>"

definition example_solver :: pyval where
  "example_solver =
     PyInstance \<lparr>obj_id = 100, obj_equality = ByValue 0, obj_doc = Some example_dopri8_doc\<rparr>
       (Dopri8 example_env) []"

definition example_saveat :: pyval where
  "example_saveat =
     PyInstance \<lparr>obj_id = 101, obj_equality = ByValue 1, obj_doc = None\<rparr>
       (example_class 17 ''SaveAt'' None) [(''subs'', PyNone), (''dense'', PyBool False)]"





section \<open>Lemmas about the binder\<close>

lemma bind_positional_error:
  "bind_positional ps args kw a = Inl e \<Longrightarrow> \<exists>m. e = TypeError m"
  by (induction ps args kw a rule: bind_positional.induct) (auto split: if_splits)

lemma bind_keywords_error:
  "bind_keywords ps kw a kp = Inl e \<Longrightarrow> \<exists>m. e = TypeError m"
  by (induction ps kw a kp rule: bind_keywords.induct) (auto split: if_splits option.splits)

lemma bind_positional_too_many:
  "list_all (\<lambda>p. param_kind p \<noteq> VAR_POSITIONAL) ps \<Longrightarrow> length ps < length args
     \<Longrightarrow> \<exists>m. bind_positional ps args kw a = Inl (TypeError m)"
  by (induction ps args kw a rule: bind_positional.induct) auto

lemma bind_positional_remaining:
  "bind_positional ps args kw a = Inr (a', rem) \<Longrightarrow> set rem \<subseteq> set ps"
  by (induction ps args kw a rule: bind_positional.induct) (auto split: if_splits)

lemma bind_keywords_keeps:
  "bind_keywords ps kw a kp = Inr (a', kw', kp') \<Longrightarrow> k \<in> set (map fst kw)
     \<Longrightarrow> k \<notin> set (map param_name ps) \<Longrightarrow> k \<in> set (map fst kw')"
  by (induction ps kw a kp rule: bind_keywords.induct)
     (auto split: if_splits option.splits simp: delete_keys)

lemma bind_keywords_param:
  "bind_keywords ps kw a kp = Inr (a', kw', kp')
     \<Longrightarrow> list_all (\<lambda>p. param_kind p \<noteq> VAR_KEYWORD) ps \<Longrightarrow> kp' = kp"
  by (induction ps kw a kp rule: bind_keywords.induct)
     (auto split: if_splits option.splits)

lemma bind_partial_error:
  "bind_partial sg args kw = Inl e \<Longrightarrow> \<exists>m. e = TypeError m"
  by (auto simp: bind_partial_def split: sum.splits prod.splits list.splits option.splits
           dest: bind_positional_error bind_keywords_error)

lemma bind_partial_too_many:
  assumes "no_var_parameters sg" "length sg < length args"
  shows "\<exists>m. bind_partial sg args kw = Inl (TypeError m)"
proof -
  from assms(1) have "list_all (\<lambda>p. param_kind p \<noteq> VAR_POSITIONAL) sg"
    by (simp add: no_var_parameters_def list_all_iff)
  from bind_positional_too_many [OF this assms(2)]
  obtain m where "bind_positional sg args kw [] = Inl (TypeError m)" by blast
  then show ?thesis by (simp add: bind_partial_def)
qed

lemma bind_partial_unexpected:
  assumes "no_var_parameters sg" "k \<in> set (map fst kw)" "k \<notin> set (map param_name sg)"
  shows "\<exists>m. bind_partial sg args kw = Inl (TypeError m)"
proof (cases "bind_partial sg args kw")
  case (Inl e)
  then show ?thesis using bind_partial_error by blast
next
  case (Inr bound)
  then obtain a1 rem where p1: "bind_positional sg args kw [] = Inr (a1, rem)"
    by (auto simp: bind_partial_def split: sum.splits)
  with Inr obtain a2 kw' kp' where p2: "bind_keywords rem kw a1 None = Inr (a2, kw', kp')"
    by (auto simp: bind_partial_def split: sum.splits)
  from bind_positional_remaining [OF p1] have sub: "set rem \<subseteq> set sg" .
  with assms(3) have "k \<notin> set (map param_name rem)" by auto
  from bind_keywords_keeps [OF p2 assms(2) this] have "kw' \<noteq> []" by auto
  moreover from sub assms(1) have "list_all (\<lambda>p. param_kind p \<noteq> VAR_KEYWORD) rem"
    by (auto simp: no_var_parameters_def list_all_iff)
  from bind_keywords_param [OF p2 this] have "kp' = None" .
  ultimately show ?thesis using p1 p2
    by (auto simp: bind_partial_def split: list.splits)
qed

section \<open>Lemmas about the dispatcher\<close>

lemma scan_parameters_eq:
  "scan_parameters ps N h =
     (if list_all (\<lambda>p. param_kind p = POSITIONAL_OR_KEYWORD \<or> param_kind p = VAR_KEYWORD) ps
      then Inr (N \<union> set (map param_name
                    (filter (\<lambda>p. param_kind p = POSITIONAL_OR_KEYWORD \<and> \<not> param_has_default p) ps)),
                h \<or> VAR_KEYWORD \<in> set (map param_kind ps))
      else Inl AssertionError)"
  by (induction ps N h rule: scan_parameters.induct) auto

lemma scan_rule:
  "scan_parameters (rule_parameters r) {} False =
     (if valid_rule r then Inr (required_names r, accepts_extra r) else Inl AssertionError)"
  by (simp add: scan_parameters_eq valid_rule_def required_names_def accepts_extra_def)

lemma dispatch_Cons:
  "dispatch (r # rest) i kw cites s tr =
     (if \<not> valid_rule r then (Inl AssertionError, s, tr)
      else if \<not> admitted r kw then dispatch rest (Suc i) kw cites s tr
      else case rule_call r (rule_kwargs r kw) s of
             (Inl e, s') \<Rightarrow> (Inl e, s', tr @ [Call i (rule_kwargs r kw) (Inl e)])
           | (Inr cite, s') \<Rightarrow>
               dispatch rest (Suc i) kw (cites @ block_of (Call i (rule_kwargs r kw) (Inr cite)))
                 s' (tr @ [Call i (rule_kwargs r kw) (Inr cite)]))"
  by (auto simp: scan_rule admitted_def rule_kwargs_def Let_def split: prod.splits sum.splits option.splits)

declare dispatch.simps(2) [simp del]

lemma filter_upt_Suc:
  "filter P [0..<Suc m] = (if P 0 then [0] else []) @ map Suc (filter (\<lambda>j. P (Suc j)) [0..<m])"
proof -
  have "[0..<Suc m] = 0 # map Suc [0..<m]"
    by (simp add: upt_conv_Cons map_Suc_upt del: upt_Suc)
  then show ?thesis by (simp add: filter_map comp_def del: upt_Suc)
qed

lemma expected_calls_0 [simp]: "expected_calls rules kw i 0 = []"
  by (simp add: expected_calls_def)

lemma expected_calls_Suc:
  "expected_calls (r # rest) kw i (Suc m) =
     (if admitted r kw then [(i, rule_kwargs r kw)] else []) @ expected_calls rest kw (Suc i) m"
  by (simp add: expected_calls_def filter_upt_Suc comp_def del: upt_Suc)

lemma dispatch_trace:
  "dispatch rules i kw cites s tr = (res, s', tr') \<Longrightarrow>
     \<exists>new m. tr' = tr @ new \<and> trace_ok rules kw i cites res new m"
proof (induction rules arbitrary: i cites s tr)
  case Nil
  then show ?case by (auto simp: trace_ok_def)
next
  case (Cons r rest)
  show ?case
  proof (cases "valid_rule r")
    case False
    with Cons.prems have "tr' = tr @ [] \<and> trace_ok (r # rest) kw i cites res [] 0"
      by (auto simp: dispatch_Cons trace_ok_def)
    then show ?thesis by blast
  next
    case valid: True
    show ?thesis
    proof (cases "admitted r kw")
      case False
      with valid Cons.prems have "dispatch rest (Suc i) kw cites s tr = (res, s', tr')"
        by (simp add: dispatch_Cons)
      from Cons.IH [OF this] obtain new m where
        "tr' = tr @ new" "trace_ok rest kw (Suc i) cites res new m" by blast
      with False valid have "tr' = tr @ new \<and> trace_ok (r # rest) kw i cites res new (Suc m)"
        by (auto simp: trace_ok_def expected_calls_Suc split: sum.splits)
      then show ?thesis by blast
    next
      case adm: True
      obtain out s1 where call: "rule_call r (rule_kwargs r kw) s = (out, s1)"
        by (cases "rule_call r (rule_kwargs r kw) s")
      show ?thesis
      proof (cases out)
        case (Inl e)
        with call adm valid Cons.prems
        have "tr' = tr @ [Call i (rule_kwargs r kw) (Inl e)]
              \<and> trace_ok (r # rest) kw i cites res [Call i (rule_kwargs r kw) (Inl e)] (Suc 0)"
          by (auto simp: dispatch_Cons trace_ok_def expected_calls_Suc call_key_def)
        then show ?thesis by blast
      next
        case (Inr cite)
        let ?c = "Call i (rule_kwargs r kw) (Inr cite)"
        from Inr call adm valid Cons.prems
        have "dispatch rest (Suc i) kw (cites @ block_of ?c) s1 (tr @ [?c]) = (res, s', tr')"
          by (simp add: dispatch_Cons)
        from Cons.IH [OF this] obtain new m where
          "tr' = (tr @ [?c]) @ new" "trace_ok rest kw (Suc i) (cites @ block_of ?c) res new m"
          by blast
        with adm valid have "tr' = tr @ (?c # new) \<and> trace_ok (r # rest) kw i cites res (?c # new) (Suc m)"
          by (auto simp: trace_ok_def expected_calls_Suc call_key_def split: sum.splits)
        then show ?thesis by blast
      qed
    qed
  qed
qed






lemma length_join:
  "xs \<noteq> [] \<Longrightarrow> length (join sep xs) = sum_list (map length xs) + length sep * (length xs - 1)"
  by (induction sep xs rule: join.induct) auto

lemma bind_positional_duplicate:
  "list_all (\<lambda>p. param_kind p \<noteq> VAR_POSITIONAL \<and> param_kind p \<noteq> POSITIONAL_ONLY) ps
     \<Longrightarrow> i < length args \<Longrightarrow> i < length ps \<Longrightarrow> has_key kw (param_name (ps ! i))
     \<Longrightarrow> \<exists>m. bind_positional ps args kw a = Inl (TypeError m)"
proof (induction ps args kw a arbitrary: i rule: bind_positional.induct)
  case (4 param parameters arg_val arg_vals kwargs arguments)
  show ?case
  proof (cases i)
    case 0
    with 4 show ?thesis by auto
  next
    case (Suc k)
    with 4 show ?thesis by auto
  qed
qed auto





lemma lstrip_id: "leading_space s = 0 \<Longrightarrow> lstrip s = s"
  by (simp add: lstrip.simps)

lemma rstrip_id: "trailing_space s = 0 \<Longrightarrow> rstrip s = s"
  by (simp add: rstrip.simps)

lemma strip_id: "leading_space s = 0 \<Longrightarrow> trailing_space s = 0 \<Longrightarrow> strip s = s"
  by (simp add: strip_def lstrip_id rstrip_id)

lemma strip_Nil [simp]: "strip [] = []"
  by (simp add: strip_id leading_space_def trailing_space_def whitespace_def suffix_to_prefix)






section \<open>Lemmas about the rules\<close>


lemma leading_space_split:
  assumes "leading_space s \<noteq> 0"
  shows "\<exists>w \<in> set whitespace. s = w @ drop (leading_space s) s"
proof -
  from assms obtain w where f: "find (\<lambda>w. prefix w s) whitespace = Some w"
    by (auto simp: leading_space_def split: option.splits)
  then have "w \<in> set whitespace" "prefix w s"
    by (auto simp: find_Some_iff)
  moreover from f have "leading_space s = length w" by (simp add: leading_space_def)
  ultimately show ?thesis by (auto simp: prefix_def)
qed

lemma trailing_space_split:
  assumes "trailing_space s \<noteq> 0"
  shows "\<exists>w \<in> set whitespace. s = take (length s - trailing_space s) s @ w"
proof -
  from assms obtain w where f: "find (\<lambda>w. suffix w s) whitespace = Some w"
    by (auto simp: trailing_space_def split: option.splits)
  then have "w \<in> set whitespace" "suffix w s"
    by (auto simp: find_Some_iff)
  moreover from f have "trailing_space s = length w" by (simp add: trailing_space_def)
  ultimately show ?thesis by (auto simp: suffix_def)
qed

lemma lstrip_keeps: "solid c \<Longrightarrow> c \<in> set s \<Longrightarrow> c \<in> set (lstrip s)"
proof (induction s rule: lstrip.induct)
  case (1 s)
  show ?case
  proof (cases "leading_space s = 0")
    case True
    with 1 show ?thesis by (simp add: lstrip.simps)
  next
    case False
    from leading_space_split [OF False] obtain w where
      w: "w \<in> set whitespace" "s = w @ drop (leading_space s) s" by blast
    with "1.prems" have "c \<in> set (drop (leading_space s) s)"
      by (metis Un_iff set_append solid_def)
    with 1 False show ?thesis by (simp add: lstrip.simps [of s])
  qed
qed

lemma rstrip_keeps: "solid c \<Longrightarrow> c \<in> set s \<Longrightarrow> c \<in> set (rstrip s)"
proof (induction s rule: rstrip.induct)
  case (1 s)
  show ?case
  proof (cases "trailing_space s = 0")
    case True
    with 1 show ?thesis by (simp add: rstrip.simps)
  next
    case False
    from trailing_space_split [OF False] obtain w where
      w: "w \<in> set whitespace" "s = take (length s - trailing_space s) s @ w" by blast
    with "1.prems" have "c \<in> set (take (length s - trailing_space s) s)"
      by (metis Un_iff set_append solid_def)
    with 1 False show ?thesis by (simp add: rstrip.simps [of s])
  qed
qed

lemma strip_keeps: "solid c \<Longrightarrow> c \<in> set s \<Longrightarrow> c \<in> set (strip s)"
  by (simp add: strip_def lstrip_keeps rstrip_keeps)

lemma solid_percent: "solid CHR ''%''"
  by (simp add: solid_def whitespace_def)

lemma diffrax_nonempty: "strip (diffrax env) \<noteq> []"
proof -
  have "CHR ''%'' \<in> set (diffrax env)"
    by (simp add: diffrax_def diffrax_text_1_def)
  from strip_keeps [OF solid_percent this] show ?thesis by auto
qed

lemma has_key_map_of: "has_key d k \<longleftrightarrow> map_of d k \<noteq> None"
  by (simp add: has_key_def map_of_eq_None_iff)








lemma diffrax_rule_simps:
  "valid_rule (diffrax_rule env)"
  "admitted (diffrax_rule env) kw"
  "rule_kwargs (diffrax_rule env) kw = []"
  "rule_call (diffrax_rule env) [] st = (Inr (Some (diffrax env)), st)"
  by (simp_all add: valid_rule_def admitted_def required_names_def rule_kwargs_def
        accepts_extra_def restrict_kwargs_def diffrax_rule_def check_call_def)

lemma join_longer:
  "b \<noteq> [] \<Longrightarrow> join sep (x # b # blocks @ [y]) @ z \<noteq> join sep [x, y] @ z"
proof
  assume b: "b \<noteq> []" and e: "join sep (x # b # blocks @ [y]) @ z = join sep [x, y] @ z"
  have "length (join sep (x # b # blocks @ [y])) = length (join sep [x, y])"
    using e by simp
  then show False using b
    by (simp add: length_join)
qed

lemma example_findall:
  "map cleandoc (findall example_dopri8_doc) = [example_ref1, example_ref2]"
  by code_simp

lemma example_parse_multi:
  "parse_reference_multi (class_object (Dopri8 example_env)) empty_store
   = (Inr [example_ref1, example_ref2],
      empty_store\<lparr>reference_multi_cache :=
        \<lparr>cache = [(class_object (Dopri8 example_env), [example_ref1, example_ref2])],
         hits = 0, misses = 1\<rparr>\<rparr>)"
  by (simp add: parse_reference_multi_def lru_cache_call_def parse_reference_multi_body_def
        scan_references_def example_findall example_env_def example_class_def
        empty_store_def empty_cache_def)

lemma example_contains:
  "contains ''Dormand'' example_ref1" "contains ''Prince'' example_ref1"
  "contains ''Bogacki'' example_ref2" "contains ''Shampine'' example_ref2"
  by code_simp+



section \<open>Lemmas about the reference store\<close>

lemma key_eq_refl [simp]: "key_eq obj obj"
  by (simp add: key_eq_def)





lemma lru_cache_call_unhashable:
  "obj_equality obj = Unhashable e \<Longrightarrow> lru_cache_call f obj c = (Inl e, c)"
  by (simp add: lru_cache_call_def)

lemma cache_holds_empty [simp]: "cache_holds f empty_cache obj"
  by (simp add: cache_holds_def empty_cache_def)

lemma cache_holds_step:
  assumes "cache_holds f c obj'" and "key_eq obj obj' \<longrightarrow> f obj' = f obj"
  shows "cache_holds f (snd (lru_cache_call f obj c)) obj'"
  using assms
  by (auto simp: lru_cache_call_def cache_holds_def
           split: equality.splits option.splits sum.splits prod.splits)















section \<open>The claims\<close>











text \<open>
  Claim C5. For a signature without \<^verbatim>\<open>*args\<close> and \<^verbatim>\<open>**kwargs\<close> parameters, as that of
  \<^verbatim>\<open>diffeqsolve\<close>: a call of \<^verbatim>\<open>citation\<close> with more positional values than the signature
  has parameters, or with a named argument whose name is not a parameter of the
  signature, raises the \<^verbatim>\<open>TypeError\<close> of the binder. No rule has been called, the
  reference store is as it was, and nothing has been written to standard output.
\<close>

theorem citation_binding_error:
  assumes "no_var_parameters sig"
      and "length sig < length args
           \<or> (\<exists>k \<in> set (map fst kwargs). k \<notin> set (map param_name sig))"
  shows "\<exists>m. citation sig rules args kwargs s
           = \<lparr>raised = Some (TypeError m), stdout = [], store = s, calls = []\<rparr>"
proof -
  from assms have "\<exists>m. bind_partial sig args kwargs = Inl (TypeError m)"
    using bind_partial_too_many bind_partial_unexpected by blast
  then show ?thesis by (auto simp: citation_def)
qed

theorem citation_binding_error_witness:
  "no_var_parameters example_signature
   \<and> (\<exists>k \<in> set (map fst [(''solvr'', 0::nat)]). k \<notin> set (map param_name example_signature))
   \<and> (\<exists>m. citation example_signature ([] :: (nat, unit) rule list) [] [(''solvr'', 0)] ()
           = \<lparr>raised = Some (TypeError m), stdout = [], store = (), calls = []\<rparr>)"
  using citation_binding_error [of example_signature "[]" "[(''solvr'', 0::nat)]" "[]" "()"]
  by (simp add: example_signature_def no_var_parameters_def)





text \<open>
  Claim C8, as amended. For a signature in which every parameter that takes a positional
  value can also be named, as that of \<^verbatim>\<open>diffeqsolve\<close>: when a parameter is given both
  positionally and by name, \<^verbatim>\<open>citation\<close> raises the \<^verbatim>\<open>TypeError\<close> of the binder. No
  canonical map is built, no rule is called and nothing is written.
\<close>

theorem citation_duplicate_argument:
  assumes "nameable_parameters sig"
      and "i < length args" and "i < length sig"
      and "has_key kwargs (param_name (sig ! i))"
  shows "\<exists>m. citation sig rules args kwargs s
           = \<lparr>raised = Some (TypeError m), stdout = [], store = s, calls = []\<rparr>"
proof -
  from assms obtain m where "bind_positional sig args kwargs [] = Inl (TypeError m)"
    unfolding nameable_parameters_def using bind_positional_duplicate by blast
  then show ?thesis by (simp add: citation_def bind_partial_def)
qed

theorem citation_duplicate_argument_witness:
  "nameable_parameters example_signature
   \<and> has_key [(''terms'', 2::nat)] (param_name (example_signature ! 0))
   \<and> (\<exists>m. citation example_signature ([] :: (nat, unit) rule list) [1] [(''terms'', 2)] ()
           = \<lparr>raised = Some (TypeError m), stdout = [], store = (), calls = []\<rparr>)"
  using citation_duplicate_argument
          [of example_signature 0 "[1::nat]" "[(''terms'', 2::nat)]" "[]" "()"]
  by (simp add: example_signature_def nameable_parameters_def has_key_def)

theorem citation_duplicate_argument_counterexample:
  "citation example_signature ([] :: (nat, unit) rule list) [1] [(''terms'', 2)] ()
     = \<lparr>raised = Some (TypeError (''multiple values for argument '' @ repr ''terms'')),
        stdout = [], store = (), calls = []\<rparr>"
  by (simp add: citation_def bind_partial_def example_signature_def has_key_def)

text \<open>
  Claim C9. \<^verbatim>\<open>_diffrax\<close> declares no parameter and is the first rule of the registry. So
  in every call of \<^verbatim>\<open>citation\<close> that raises no error the text written has the block of
  \<^verbatim>\<open>_diffrax\<close>, which is not empty, right after the start banner; the text is never the
  two banners alone.
\<close>

theorem diffrax_always_cited:
  assumes "raised (citation sig (diffrax_rule env # rest) args kwargs st) = None"
  shows "\<exists>blocks.
           stdout (citation sig (diffrax_rule env # rest) args kwargs st)
             = join ''\<newline>\<newline>'' (start_banner # strip (diffrax env) # blocks @ [end_banner])
               @ ''\<newline>''
           \<and> strip (diffrax env) \<noteq> []
           \<and> stdout (citation sig (diffrax_rule env # rest) args kwargs st)
               \<noteq> join ''\<newline>\<newline>'' [start_banner, end_banner] @ ''\<newline>''"
proof -
  from assms obtain bound where b: "bind_partial sig args kwargs = Inr bound"
    by (cases "bind_partial sig args kwargs") (simp_all add: citation_def)
  let ?kw = "canonical_map sig bound"
  let ?c = "Call 0 [] (Inr (Some (diffrax env)))"
  obtain res s' tr where
    d: "dispatch rest (Suc 0) ?kw ([start_banner] @ block_of ?c) st [?c] = (res, s', tr)"
    using prod_cases3 by blast
  have run: "citation sig (diffrax_rule env # rest) args kwargs st
      = (case res of
           Inl e \<Rightarrow> \<lparr>raised = Some e, stdout = [], store = s', calls = tr\<rparr>
         | Inr cites \<Rightarrow>
             \<lparr>raised = None,
              stdout = join ''\<newline>\<newline>'' (cites @ [end_banner]) @ ''\<newline>'',
              store = s', calls = tr\<rparr>)"
    using b d by (simp add: citation_def dispatch_Cons diffrax_rule_simps split: sum.splits)
  with assms obtain cites where res: "res = Inr cites" by (cases res) simp_all
  from dispatch_trace [OF d] res
  have "\<exists>blocks. cites = ([start_banner] @ block_of ?c) @ blocks"
    by (auto simp: trace_ok_def)
  then obtain blocks where
    "cites = ([start_banner] @ block_of ?c) @ blocks" ..
  then have out: "stdout (citation sig (diffrax_rule env # rest) args kwargs st)
      = join ''\<newline>\<newline>''
          (start_banner # strip (diffrax env) # blocks @ [end_banner])
        @ ''\<newline>''"
    using run res by simp
  moreover have "strip (diffrax env) \<noteq> []" by (rule diffrax_nonempty)
  ultimately show ?thesis using join_longer by metis
qed

theorem diffrax_always_cited_witness:
  "raised (citation example_signature [diffrax_rule example_env] [] [] empty_store) = None
   \<and> stdout (citation example_signature [diffrax_rule example_env] [] [] empty_store)
       \<noteq> join ''\<newline>\<newline>'' [start_banner, end_banner] @ ''\<newline>''"
proof -
  have r: "raised (citation example_signature [diffrax_rule example_env] [] [] empty_store) = None"
    by (simp add: citation_def bind_partial_def example_signature_def has_key_def
          canonical_map_def dispatch_Cons diffrax_rule_simps)
  from diffrax_always_cited [OF r] r show ?thesis by blast
qed

text \<open>
  Claim C10. In the branch of \<^verbatim>\<open>Dopri8\<close> of \<^verbatim>\<open>_solvers\<close>, when the documentation of
  \<^verbatim>\<open>Dopri8\<close> gives the two references the assertions expect: for every \<^verbatim>\<open>saveat\<close> that is
  not \<^verbatim>\<open>None\<close> and has an attribute \<^verbatim>\<open>dense\<close> with a truth value, the rule returns the
  text with the second reference (the interpolant) appended, whether \<^verbatim>\<open>saveat.dense\<close> is
  true or false and whatever the leaves of \<^verbatim>\<open>saveat\<close> are.
\<close>

theorem dopri8_interpolant:
  assumes "type_is solver (Dopri8 env)"
      and "\<not> list_ex (type_is solver) (other_solver_classes env)"
      and "parse_reference_multi (class_object (Dopri8 env)) st = (Inr [ref1, ref2], st')"
      and "contains ''Dormand'' ref1" and "contains ''Prince'' ref1"
      and "contains ''Bogacki'' ref2" and "contains ''Shampine'' ref2"
      and "saveat \<noteq> PyNone"
      and "getattr saveat ''dense'' = Inr dense"
      and "truthy dense = Inr is_dense"
  shows "solvers env solver saveat st
         = (Inr (Some (dopri8_text_1 @ ref1 @ dopri8_text_2 @ ref2)), st')"
  using assms
  by (cases is_dense)
     (simp_all add: solvers_def other_solver_classes_def unpack2_def py_or_def Let_def)

theorem dopri8_interpolant_witness:
  "type_is example_solver (Dopri8 example_env)
   \<and> example_saveat \<noteq> PyNone
   \<and> getattr example_saveat ''dense'' = Inr (PyBool False)
   \<and> fst (solvers example_env example_solver example_saveat empty_store)
       = Inr (Some (dopri8_text_1 @ example_ref1 @ dopri8_text_2 @ example_ref2))"
proof -
  have t: "type_is example_solver (Dopri8 example_env)"
    by (simp add: example_solver_def)
  have o: "\<not> list_ex (type_is example_solver) (other_solver_classes example_env)"
    by (simp add: example_solver_def other_solver_classes_def example_env_def example_class_def)
  have s: "example_saveat \<noteq> PyNone" by (simp add: example_saveat_def)
  have g: "getattr example_saveat ''dense'' = Inr (PyBool False)"
    by (simp add: example_saveat_def)
  have b: "truthy (PyBool False) = Inr False" by simp
  from dopri8_interpolant [OF t o example_parse_multi example_contains s g b] t s g
  show ?thesis by simp
qed

end
